theory Spec2Isabelle
  imports Main "HOL-Library.Sublist"
begin

section \<open>The remote subnet manager client (remote/client.go)\<close>

text \<open>
  Go strings are byte sequences; they are modelled as \<open>string\<close> (a list of
  8-bit characters). Indexing \<open>network[0]\<close> is \<open>hd\<close>, used only where the
  string is known to be non-empty.
\<close>

subsection \<open>The Go library function \<open>path.Join\<close> used by \<open>mkurl\<close>\<close>

text \<open>
  \<open>mkurl\<close> calls \<open>path.Join\<close> of the Go standard library, which joins its
  elements with slashes and returns the result of \<open>path.Clean\<close>. The library
  is not part of the repository; the following definitions transcribe its
  algorithm: a read position in the path (here: the rest of the path still to
  be read), an output buffer \<open>out\<close> (whose length is the write index
  \<open>out.w\<close>), and the index \<open>dotdot\<close> below which a \<open>..\<close> element must not
  backtrack.
\<close>

definition slash :: char where
  "slash = CHR ''/''"

definition dot :: char where
  "dot = CHR ''.''"

text \<open>
  Backtracking for a \<open>..\<close> element:
  \<^verbatim>\<open>out.w--; for out.w > dotdot && out.index(out.w) != '/' { out.w-- }\<close>
  The argument \<open>w\<close> is the write index after the first decrement.
\<close>

function backtrack :: "string \<Rightarrow> nat \<Rightarrow> nat \<Rightarrow> nat" where
  "backtrack out dotdot w =
     (if w > dotdot \<and> out ! w \<noteq> slash then backtrack out dotdot (w - 1) else w)"
  by pat_completeness auto
termination
  by (relation "measure (\<lambda>(out, dotdot, w). w)") auto

declare backtrack.simps [simp del]

text \<open>
  The main loop of \<open>path.Clean\<close>, \<^verbatim>\<open>for r < n { switch { ... } }\<close>, with its
  four cases in the order of the source: an empty element, a \<open>.\<close> element, a
  \<open>..\<close> element, a real element (copied up to the next slash).
\<close>

function clean_loop :: "bool \<Rightarrow> string \<Rightarrow> string \<Rightarrow> nat \<Rightarrow> string" where
  "clean_loop rooted [] out dotdot = out"
| "clean_loop rooted (c # cs) out dotdot =
     (if c = slash then clean_loop rooted cs out dotdot
      else if c = dot \<and> (cs = [] \<or> hd cs = slash) then clean_loop rooted cs out dotdot
      else if c = dot \<and> hd cs = dot \<and> (tl cs = [] \<or> hd (tl cs) = slash) then
        (if length out > dotdot then
           clean_loop rooted (tl cs) (take (backtrack out dotdot (length out - 1)) out) dotdot
         else if \<not> rooted then
           (let out' = (if length out > 0 then out @ [slash] else out) @ [dot, dot]
            in clean_loop rooted (tl cs) out' (length out'))
         else clean_loop rooted (tl cs) out dotdot)
      else
        (let out' = (if rooted \<and> length out \<noteq> 1 \<or> \<not> rooted \<and> length out \<noteq> 0
                     then out @ [slash] else out)
         in clean_loop rooted (dropWhile (\<lambda>x. x \<noteq> slash) cs)
              (out' @ c # takeWhile (\<lambda>x. x \<noteq> slash) cs) dotdot))"
  by pat_completeness auto
termination
proof (relation "measure (\<lambda>(rooted, p, out, dotdot). length p)")
  show "wf (measure (\<lambda>(rooted, p, out, dotdot). length p))"
    by simp
next
  fix rooted :: bool and c :: char and cs out :: string and dotdot :: nat
  show "((rooted, cs, out, dotdot), rooted, c # cs, out, dotdot)
          \<in> measure (\<lambda>(rooted, p, out, dotdot). length p)"
    by simp
next
  fix rooted :: bool and c :: char and cs out :: string and dotdot :: nat
  show "((rooted, cs, out, dotdot), rooted, c # cs, out, dotdot)
          \<in> measure (\<lambda>(rooted, p, out, dotdot). length p)"
    by simp
next
  fix rooted :: bool and c :: char and cs out :: string and dotdot :: nat
  show "((rooted, tl cs, take (backtrack out dotdot (length out - 1)) out, dotdot),
          rooted, c # cs, out, dotdot) \<in> measure (\<lambda>(rooted, p, out, dotdot). length p)"
    by simp
next
  fix rooted :: bool and c :: char and cs out x :: string and dotdot :: nat
  show "((rooted, tl cs, x, length x), rooted, c # cs, out, dotdot)
          \<in> measure (\<lambda>(rooted, p, out, dotdot). length p)"
    by simp
next
  fix rooted :: bool and c :: char and cs out :: string and dotdot :: nat
  show "((rooted, tl cs, out, dotdot), rooted, c # cs, out, dotdot)
          \<in> measure (\<lambda>(rooted, p, out, dotdot). length p)"
    by simp
next
  fix rooted :: bool and c :: char and cs out x :: string and dotdot :: nat
  have "length (dropWhile (\<lambda>x. x \<noteq> slash) cs) \<le> length cs"
    by (rule length_dropWhile_le)
  then show "((rooted, dropWhile (\<lambda>x. x \<noteq> slash) cs, x @ c # takeWhile (\<lambda>x. x \<noteq> slash) cs, dotdot),
          rooted, c # cs, out, dotdot) \<in> measure (\<lambda>(rooted, p, out, dotdot). length p)"
    by simp
qed

declare clean_loop.simps [simp del]

text \<open>
  \<open>path.Clean\<close>: the empty path is \<open>.\<close>; a rooted path starts the buffer with
  its slash (\<^verbatim>\<open>r, dotdot = 1, 1\<close>); an empty result is \<open>.\<close>.
\<close>

definition Clean :: "string \<Rightarrow> string" where
  "Clean p =
     (if p = [] then ''.''
      else
        (let rooted = (hd p = slash);
             out = (if rooted then clean_loop rooted (tl p) [slash] 1
                    else clean_loop rooted p [] 0)
         in if out = [] then ''.'' else out))"

text \<open>\<open>strings.Join(elem, "/")\<close>.\<close>

fun join_slash :: "string list \<Rightarrow> string" where
  "join_slash [] = []"
| "join_slash [e] = e"
| "join_slash (e # es) = e @ slash # join_slash es"

text \<open>
  \<open>path.Join\<close>: the elements from the first non-empty one on are joined with
  slashes and cleaned; with no non-empty element the result is the empty
  string.
\<close>

fun Join :: "string list \<Rightarrow> string" where
  "Join [] = []"
| "Join (e # es) = (if e \<noteq> [] then Clean (join_slash (e # es)) else Join es)"

subsection \<open>The manager and its address builder\<close>

record RemoteManager =
  base :: string

definition NewRemoteManager :: "string \<Rightarrow> RemoteManager" where
  "NewRemoteManager listenAddr = \<lparr>base = ''http://'' @ listenAddr @ ''/v1''\<rparr>"

text \<open>
  \<^verbatim>\<open>if network == "" { network = "/_" }
  if network[0] != '/' { network = "/" + network }
  return m.base + path.Join(append([]string{network}, parts...)...)\<close>
\<close>

definition mkurl :: "RemoteManager \<Rightarrow> string \<Rightarrow> string list \<Rightarrow> string" where
  "mkurl m network parts =
     (let network1 = (if network = [] then ''/_'' else network);
          network2 = (if hd network1 \<noteq> slash then slash # network1 else network1)
      in base m @ Join (network2 # parts))"

subsection \<open>Errors, requests and responses\<close>

text \<open>
  A Go \<open>error\<close> value. \<open>Errorf\<close> is an error made by \<open>fmt.Errorf\<close>, with
  its formatted message; the other constructors are the errors handed back by
  the collaborators (\<open>json.Marshal\<close>, \<open>http.NewRequest\<close>, the transport,
  the context, reading a body, the JSON decoder), each with its message.
\<close>

datatype error =
    Errorf string
  | MarshalError string
  | RequestError string
  | TransportError string
  | ContextError string
  | ReadError string
  | DecodeError string

text \<open>
  A response body (an \<open>io.ReadCloser\<close>): the bytes it delivers, and the error
  that ends the stream in place of the end of file, if any.
\<close>

datatype body = Stream string "error option"

text \<open>
  \<open>ioutil.ReadAll\<close>: all the bytes, or the read error (the caller ignores the
  bytes read so far when there is an error).
\<close>

fun ReadAll :: "body \<Rightarrow> error + string" where
  "ReadAll (Stream b None) = Inr b"
| "ReadAll (Stream b (Some err)) = Inl err"

record request =
  Method :: string
  URL :: string
  Header :: "(string \<times> string) list"
  ReqBody :: "string option"

record response =
  Status :: string
  StatusCode :: int
  Body :: body

text \<open>
  A value of Go's empty interface \<open>interface{}\<close>, the type of a watch cursor:
  nil, a string, or a value of any other dynamic type.
\<close>

datatype iface =
    INil
  | is_IString: IString string
  | IBool bool
  | INumber int
  | IOther nat

text \<open>
  Modelled from the spec: the type \<open>subnet.WatchResult\<close> is declared in package
  \<open>subnet\<close>, which is not among the sources. The spec describes it as
  a full snapshot or incremental events, plus a new cursor to resume from.
  \<open>subnet.WatchResult{}\<close> is its zero value.
\<close>

record ('ev, 'lease) WatchResult =
  Events :: "'ev list"
  Snapshot :: "'lease list"
  Cursor :: iface

definition empty_WatchResult :: "('ev, 'lease) WatchResult" where
  "empty_WatchResult = \<lparr>Events = [], Snapshot = [], Cursor = INil\<rparr>"

text \<open>
  The observable effects of a call, recorded in the order they happen: a
  request is handed to the transport, a request is cancelled, the response
  body is closed.
\<close>

datatype effect =
    ClientDo request
  | CancelRequest request
  | BodyClose

text \<open>
  The case of the \<open>select\<close> statement of \<open>httpDo\<close> that fires: the context is
  done, or the result has arrived on the channel.
\<close>

datatype select_case = CaseCtxDone | CaseResult

text \<open>
  The collaborators of the client, as parameters: the types \<open>subnet.Config\<close>,
  \<open>subnet.LeaseAttrs\<close>, \<open>subnet.Lease\<close> and the event type (type variables),
  \<open>http.NewRequest\<close> (its error for a method and a URL, if any), the
  transport (\<open>client.Do\<close>), the scheduler's resolution of the \<open>select\<close>
  statement for a request, \<open>json.Marshal\<close> and the JSON decoder at each type
  (the decoder reads the body itself), and the method \<open>Lease.Key\<close>.
\<close>

record ('config, 'attrs, 'lease, 'ev) env =
  NewRequest_err :: "string \<Rightarrow> string \<Rightarrow> error option"
  Do :: "request \<Rightarrow> error + response"
  select_fires :: "request \<Rightarrow> select_case"
  Marshal_attrs :: "'attrs \<Rightarrow> error + string"
  Marshal_lease :: "'lease \<Rightarrow> error + string"
  Decode_config :: "body \<Rightarrow> error + 'config"
  Decode_lease :: "body \<Rightarrow> error + 'lease"
  Decode_watch :: "body \<Rightarrow> error + ('ev, 'lease) WatchResult"
  Key :: "'lease \<Rightarrow> string"

text \<open>A context: \<open>Err\<close> is what \<open>ctx.Err()\<close> returns once the context is done.\<close>

record Context =
  Err :: error

subsection \<open>The HTTP helpers\<close>

text \<open>
  \<^verbatim>\<open>b, err := ioutil.ReadAll(resp.Body)
  if err != nil { return err }
  return fmt.Errorf("%v: %v", resp.Status, string(b))\<close>
\<close>

definition httpError :: "response \<Rightarrow> error" where
  "httpError resp =
     (case ReadAll (Body resp) of
        Inl err \<Rightarrow> err
      | Inr b \<Rightarrow> Errorf (Status resp @ '': '' @ b))"

text \<open>
  \<open>httpDo\<close> as its caller sees it: the request is always handed to the
  transport (in the goroutine); when the \<open>ctx.Done()\<close> case fires the request
  is cancelled and \<open>ctx.Err()\<close> is returned, when the channel case fires the
  transport's result is returned. A result \<open>Inr resp\<close> is Go's \<open>(resp, nil)\<close>,
  a result \<open>Inl err\<close> is \<open>(_, err)\<close> with a non-nil error.
\<close>

definition httpDo ::
  "('config, 'attrs, 'lease, 'ev) env \<Rightarrow> Context \<Rightarrow> request \<Rightarrow> (error + response) \<times> effect list" where
  "httpDo env ctx req =
     (case select_fires env req of
        CaseCtxDone \<Rightarrow> (Inl (Err ctx), [ClientDo req, CancelRequest req])
      | CaseResult \<Rightarrow> (Do env req, [ClientDo req]))"

definition NewRequest ::
  "('config, 'attrs, 'lease, 'ev) env \<Rightarrow> string \<Rightarrow> string \<Rightarrow> string option \<Rightarrow> error + request" where
  "NewRequest env method url b =
     (case NewRequest_err env method url of
        Some err \<Rightarrow> Inl err
      | None \<Rightarrow> Inr \<lparr>Method = method, URL = url, Header = [], ReqBody = b\<rparr>)"

definition httpGet ::
  "('config, 'attrs, 'lease, 'ev) env \<Rightarrow> Context \<Rightarrow> string \<Rightarrow> (error + response) \<times> effect list" where
  "httpGet env ctx url =
     (case NewRequest env ''GET'' url None of
        Inl err \<Rightarrow> (Inl err, [])
      | Inr req \<Rightarrow> httpDo env ctx req)"

definition httpPutPost ::
  "('config, 'attrs, 'lease, 'ev) env \<Rightarrow> Context \<Rightarrow> string \<Rightarrow> string \<Rightarrow> string \<Rightarrow> string
     \<Rightarrow> (error + response) \<times> effect list" where
  "httpPutPost env ctx method url contentType b =
     (case NewRequest env method url (Some b) of
        Inl err \<Rightarrow> (Inl err, [])
      | Inr req \<Rightarrow> httpDo env ctx (req\<lparr>Header := [(''Content-Type'', contentType)]\<rparr>))"

subsection \<open>The four operations\<close>

text \<open>
  Each operation returns its Go results and the effects it had. A deferred
  \<open>resp.Body.Close()\<close> runs when the function returns, so it is the last effect
  on every path after the \<open>defer\<close> statement.
\<close>

definition GetNetworkConfig ::
  "('config, 'attrs, 'lease, 'ev) env \<Rightarrow> Context \<Rightarrow> RemoteManager \<Rightarrow> string
     \<Rightarrow> (error + 'config) \<times> effect list" where
  "GetNetworkConfig env ctx m network =
     (let url = mkurl m network [''config''] in
      case httpGet env ctx url of
        (Inl err, t) \<Rightarrow> (Inl err, t)
      | (Inr resp, t) \<Rightarrow>
          (if StatusCode resp \<noteq> 200 then (Inl (httpError resp), t @ [BodyClose])
           else
             (case Decode_config env (Body resp) of
                Inl err \<Rightarrow> (Inl err, t @ [BodyClose])
              | Inr config \<Rightarrow> (Inr config, t @ [BodyClose]))))"

definition AcquireLease ::
  "('config, 'attrs, 'lease, 'ev) env \<Rightarrow> Context \<Rightarrow> RemoteManager \<Rightarrow> string \<Rightarrow> 'attrs
     \<Rightarrow> (error + 'lease) \<times> effect list" where
  "AcquireLease env ctx m network attrs =
     (let url = mkurl m network [''leases/''] in
      case Marshal_attrs env attrs of
        Inl err \<Rightarrow> (Inl err, [])
      | Inr b \<Rightarrow>
          (case httpPutPost env ctx ''POST'' url ''application/json'' b of
             (Inl err, t) \<Rightarrow> (Inl err, t)
           | (Inr resp, t) \<Rightarrow>
               (if StatusCode resp \<noteq> 200 then (Inl (httpError resp), t @ [BodyClose])
                else
                  (case Decode_lease env (Body resp) of
                     Inl err \<Rightarrow> (Inl err, t @ [BodyClose])
                   | Inr newLease \<Rightarrow> (Inr newLease, t @ [BodyClose])))))"

text \<open>
  \<open>RenewLease\<close> takes a pointer to the caller's lease and returns an error or
  nil; the model returns the error (\<open>None\<close> for nil), the content of the
  caller's lease after the call, and the effects. \<^verbatim>\<open>*lease = *newLease\<close> is the
  only assignment to the caller's lease.
\<close>

definition RenewLease ::
  "('config, 'attrs, 'lease, 'ev) env \<Rightarrow> Context \<Rightarrow> RemoteManager \<Rightarrow> string \<Rightarrow> 'lease
     \<Rightarrow> error option \<times> 'lease \<times> effect list" where
  "RenewLease env ctx m network lease =
     (let url = mkurl m network [''leases'', Key env lease] in
      case Marshal_lease env lease of
        Inl err \<Rightarrow> (Some err, lease, [])
      | Inr b \<Rightarrow>
          (case httpPutPost env ctx ''PUT'' url ''application/json'' b of
             (Inl err, t) \<Rightarrow> (Some err, lease, t)
           | (Inr resp, t) \<Rightarrow>
               (if StatusCode resp \<noteq> 200 then (Some (httpError resp), lease, t @ [BodyClose])
                else
                  (case Decode_lease env (Body resp) of
                     Inl err \<Rightarrow> (Some err, lease, t @ [BodyClose])
                   | Inr newLease \<Rightarrow> (None, newLease, t @ [BodyClose])))))"

text \<open>
  The first part of \<open>WatchLeases\<close> (the address and the check of the cursor):
  \<^verbatim>\<open>url := m.mkurl(network, "leases")
  if cursor != nil {
      c, ok := cursor.(string)
      if !ok { return subnet.WatchResult{}, fmt.Errorf("internal error: ...") }
      url = fmt.Sprintf("%v?next=%v", url, c)
  }\<close>
\<close>

definition WatchLeases_url :: "RemoteManager \<Rightarrow> string \<Rightarrow> iface \<Rightarrow> error + string" where
  "WatchLeases_url m network cursor =
     (let url = mkurl m network [''leases''] in
      if cursor \<noteq> INil then
        (case cursor of
           IString c \<Rightarrow> Inr (url @ ''?next='' @ c)
         | _ \<Rightarrow> Inl (Errorf ''internal error: RemoteManager.WatchLeases received non-string cursor''))
      else Inr url)"

text \<open>
  \<open>WatchLeases\<close> returns a \<open>WatchResult\<close> value and an error (\<open>None\<close> for nil).
  It has no \<open>resp.Body.Close()\<close>.
\<close>

definition WatchLeases ::
  "('config, 'attrs, 'lease, 'ev) env \<Rightarrow> Context \<Rightarrow> RemoteManager \<Rightarrow> string \<Rightarrow> iface
     \<Rightarrow> (('ev, 'lease) WatchResult \<times> error option) \<times> effect list" where
  "WatchLeases env ctx m network cursor =
     (case WatchLeases_url m network cursor of
        Inl err \<Rightarrow> ((empty_WatchResult, Some err), [])
      | Inr url \<Rightarrow>
          (case httpGet env ctx url of
             (Inl err, t) \<Rightarrow> ((empty_WatchResult, Some err), t)
           | (Inr resp, t) \<Rightarrow>
               (if StatusCode resp \<noteq> 200 then ((empty_WatchResult, Some (httpError resp)), t)
                else
                  (case Decode_watch env (Body resp) of
                     Inl err \<Rightarrow> ((empty_WatchResult, Some err), t)
                   | Inr wr \<Rightarrow>
                       (if \<not> is_IString (Cursor wr)
                        then ((empty_WatchResult,
                               Some (Errorf ''lease watch returned non-string cursor'')), t)
                        else ((wr, None), t))))))"

subsection \<open>\<open>httpDo\<close> step by step: the goroutine, the channel and the \<open>select\<close>\<close>

text \<open>
  The interleavings of \<open>httpDo\<close> with its goroutine and with the context. The
  calling goroutine is at the \<open>select\<close> statement (the goroutine has been
  started), blocked in it (no case was ready), at \<open>tr.CancelRequest(req)\<close>, at the
  receive \<open>\<open><-\<close>c\<close> that waits for the goroutine, or has returned a result.
  The started goroutine is inside \<open>client.Do(req)\<close>, at the send
  \<open>c \<open><-\<close> httpRespErr{resp, err}\<close> with the result of \<open>client.Do\<close>, or has
  finished (the send is its last statement).
\<close>

datatype main_pc = AtSelect | Blocked | AtCancel | AtDrain | is_Returned: Returned "error + response"

datatype goroutine_pc = InDo | AtSend "error + response" | Finished

text \<open>
  \<open>chan\<close> is the buffer of the channel \<open>c\<close>, of capacity 1; \<open>ctx_done\<close> says
  that the channel \<open>ctx.Done()\<close> is closed; \<open>cancelled\<close> that
  \<open>tr.CancelRequest(req)\<close> has been called.
\<close>

record httpDo_state =
  main :: main_pc
  goroutine :: goroutine_pc
  chan :: "(error + response) option"
  ctx_done :: bool
  cancelled :: bool

text \<open>
  The atomic steps: the context becomes done; \<open>client.Do\<close> returns a result in
  the goroutine; the goroutine sends it; the caller executes the \<open>select\<close>
  and takes the \<open>ctx.Done()\<close> case, takes the channel case, or blocks; the
  caller cancels the request; the caller receives from the channel after
  cancelling and returns \<open>ctx.Err()\<close>.
\<close>

datatype event =
    CtxDone
  | DoReturns "error + response"
  | Send
  | SelectCtx
  | SelectChan
  | Park
  | Cancel
  | Drain

definition init :: httpDo_state where
  "init = \<lparr>main = AtSelect, goroutine = InDo, chan = None, ctx_done = False, cancelled = False\<rparr>"

text \<open>
  One step; \<open>None\<close> when the step cannot be taken in the state. A \<open>select\<close>
  takes a case that is ready, either of them when both are, and blocks when none
  is. Closing \<open>ctx.Done()\<close> while the caller is blocked in the \<open>select\<close> fires
  its first case; a send while the caller is blocked in the \<open>select\<close> hands the
  result to its second case, which returns it. A send in any other state
  fills the buffer and does not block. The receive after the cancellation
  blocks until the buffer is filled.
\<close>

fun step :: "Context \<Rightarrow> event \<Rightarrow> httpDo_state \<Rightarrow> httpDo_state option" where
  "step ctx CtxDone s =
     (if ctx_done s then None
      else Some (s\<lparr>ctx_done := True, main := (if main s = Blocked then AtCancel else main s)\<rparr>))"
| "step ctx (DoReturns r) s =
     (if goroutine s = InDo then Some (s\<lparr>goroutine := AtSend r\<rparr>) else None)"
| "step ctx Send s =
     (case goroutine s of
        AtSend r \<Rightarrow>
          Some (if main s = Blocked then s\<lparr>goroutine := Finished, main := Returned r\<rparr>
                else s\<lparr>goroutine := Finished, chan := Some r\<rparr>)
      | _ \<Rightarrow> None)"
| "step ctx SelectCtx s =
     (if main s = AtSelect \<and> ctx_done s then Some (s\<lparr>main := AtCancel\<rparr>) else None)"
| "step ctx SelectChan s =
     (if main s = AtSelect then
        (case chan s of
           Some r \<Rightarrow> Some (s\<lparr>main := Returned r, chan := None\<rparr>)
         | None \<Rightarrow> None)
      else None)"
| "step ctx Park s =
     (if main s = AtSelect \<and> \<not> ctx_done s \<and> chan s = None then Some (s\<lparr>main := Blocked\<rparr>)
      else None)"
| "step ctx Cancel s =
     (if main s = AtCancel then Some (s\<lparr>main := AtDrain, cancelled := True\<rparr>) else None)"
| "step ctx Drain s =
     (if main s = AtDrain then
        (case chan s of
           Some r \<Rightarrow> Some (s\<lparr>main := Returned (Inl (Err ctx)), chan := None\<rparr>)
         | None \<Rightarrow> None)
      else None)"

text \<open>An interleaving is a list of steps, taken one after the other.\<close>

fun run :: "Context \<Rightarrow> event list \<Rightarrow> httpDo_state \<Rightarrow> httpDo_state option" where
  "run ctx [] s = Some s"
| "run ctx (e # es) s = (case step ctx e s of None \<Rightarrow> None | Some s' \<Rightarrow> run ctx es s')"

text \<open>
  The context becomes done strictly before the transport call completes: of
  the steps \<open>CtxDone\<close> and \<open>DoReturns\<close>, the first one in the interleaving is
  \<open>CtxDone\<close>.
\<close>

fun ctx_done_first :: "event list \<Rightarrow> bool" where
  "ctx_done_first [] = False"
| "ctx_done_first (CtxDone # es) = True"
| "ctx_done_first (DoReturns r # es) = False"
| "ctx_done_first (e # es) = ctx_done_first es"

text \<open>
  What holds of every state an interleaving reaches: the buffer is filled only
  by the finished goroutine, the caller blocks in the \<open>select\<close> only while no
  case is ready, and it has returned exactly when the goroutine has finished
  and the buffer is empty again.
\<close>

definition state_inv :: "httpDo_state \<Rightarrow> bool" where
  "state_inv s \<longleftrightarrow>
     (goroutine s \<noteq> Finished \<longrightarrow> chan s = None \<and> \<not> is_Returned (main s)) \<and>
     (main s = Blocked \<longrightarrow> chan s = None \<and> \<not> ctx_done s) \<and>
     (is_Returned (main s) \<longrightarrow> chan s = None) \<and>
     (goroutine s = Finished \<and> chan s = None \<longrightarrow> is_Returned (main s)) \<and>
     (main s = AtCancel \<or> main s = AtDrain \<longrightarrow> ctx_done s) \<and>
     (main s = AtDrain \<longrightarrow> cancelled s)"

text \<open>How a state reflects the steps that led to it.\<close>

definition history_inv :: "event list \<Rightarrow> httpDo_state \<Rightarrow> bool" where
  "history_inv es s \<longleftrightarrow>
     (ctx_done s \<longleftrightarrow> CtxDone \<in> set es) \<and>
     (goroutine s = InDo \<longleftrightarrow> (\<forall>r. DoReturns r \<notin> set es)) \<and>
     (cancelled s \<longleftrightarrow> Cancel \<in> set es) \<and>
     (\<forall>r. goroutine s = AtSend r \<longrightarrow> DoReturns r \<in> set es) \<and>
     (\<forall>r. chan s = Some r \<longrightarrow> DoReturns r \<in> set es)"

text \<open>
  Where a returned value comes from: it is a result of the transport call,
  taken by the channel case of the \<open>select\<close> (or the transport call completed
  before the context was done), or it is \<open>ctx.Err()\<close>, returned after the
  cancellation and the receive.
\<close>

definition returned_inv :: "Context \<Rightarrow> event list \<Rightarrow> httpDo_state \<Rightarrow> bool" where
  "returned_inv ctx es s \<longleftrightarrow>
     (\<forall>r. main s = Returned r \<longrightarrow>
        DoReturns r \<in> set es \<and> (SelectChan \<in> set es \<or> \<not> ctx_done_first es) \<or>
        r = Inl (Err ctx) \<and> Cancel \<in> set es \<and> Drain \<in> set es)"

text \<open>
  Steps that bring a state to the return of \<open>httpDo\<close>, once the transport call
  returns (with \<open>r\<close>, if it has not returned yet): the goroutine runs to its
  end, and the caller takes the steps left to it.
\<close>

definition completion :: "error + response \<Rightarrow> httpDo_state \<Rightarrow> event list" where
  "completion r s =
     (let g = (case goroutine s of
                 InDo \<Rightarrow> [DoReturns r, Send]
               | AtSend r' \<Rightarrow> [Send]
               | Finished \<Rightarrow> [])
      in case main s of
           AtSelect \<Rightarrow> g @ [SelectChan]
         | Blocked \<Rightarrow> g
         | AtCancel \<Rightarrow> Cancel # g @ [Drain]
         | AtDrain \<Rightarrow> g @ [Drain]
         | Returned res \<Rightarrow> [])"

subsection \<open>Concrete collaborators, for evaluating the operations\<close>

text \<open>
  An environment in which configurations, attributes and leases are strings
  that serialize to themselves: every request can be built, the transport
  answers every request with \<open>r\<close>, and the \<open>select\<close> case given by \<open>sel\<close>
  fires. A watch result decodes from a body \<open>b\<close> with the cursor \<open>b\<close>, and with
  the number 42 as cursor when the body is empty.
\<close>

definition test_env :: "error + response \<Rightarrow> select_case \<Rightarrow> (string, string, string, nat) env" where
  "test_env r sel =
     \<lparr>NewRequest_err = (\<lambda>method url. None),
      Do = (\<lambda>req. r),
      select_fires = (\<lambda>req. sel),
      Marshal_attrs = Inr,
      Marshal_lease = Inr,
      Decode_config = ReadAll,
      Decode_lease = ReadAll,
      Decode_watch = (\<lambda>b. case ReadAll b of
                        Inl err \<Rightarrow> Inl err
                      | Inr s \<Rightarrow> Inr \<lparr>Events = [], Snapshot = [],
                                     Cursor = (if s = [] then INumber 42 else IString s)\<rparr>),
      Key = (\<lambda>lease. lease)\<rparr>"

definition test_ctx :: Context where
  "test_ctx = \<lparr>Err = ContextError ''context canceled''\<rparr>"

definition test_manager :: RemoteManager where
  "test_manager = NewRemoteManager ''10.0.0.1:8888''"

definition resp_ok :: "string \<Rightarrow> response" where
  "resp_ok b = \<lparr>Status = ''200 OK'', StatusCode = 200, Body = Stream b None\<rparr>"

definition resp_not_found :: "string \<Rightarrow> response" where
  "resp_not_found b = \<lparr>Status = ''404 Not Found'', StatusCode = 404, Body = Stream b None\<rparr>"

section \<open>Properties\<close>

subsection \<open>Evaluation of the address builder\<close>

lemmas clean_eval = slash_def dot_def Clean_def clean_loop.simps

text \<open>
  The transcription of \<open>path.Clean\<close> evaluated on the examples of the library's
  documentation and tests.
\<close>

lemma Clean_examples:
  "Clean ''a/c'' = ''a/c''"
  "Clean ''a//c'' = ''a/c''"
  "Clean ''a/c/.'' = ''a/c''"
  "Clean ''a/c/b/..'' = ''a/c''"
  "Clean ''/../a/c'' = ''/a/c''"
  "Clean ''/../a/b/../././/c'' = ''/a/c''"
  "Clean [] = ''.''"
  "Clean ''abc/def/'' = ''abc/def''"
  "Clean ''../../abc'' = ''../../abc''"
  "Clean ''abc/../../def'' = ''../def''"
  by code_simp+

lemma Join_trailing_slash: "Join [''/foo'', ''leases/''] = ''/foo/leases''"
  by (simp add: clean_eval)

lemma Join_sentinel_config: "Join [''/_'', ''config''] = ''/_/config''"
  by (simp add: clean_eval)

text \<open>
  Network identifiers made of path elements none of which is empty, \<open>.\<close> or
  \<open>..\<close> are copied to the cleaned path as they are.
\<close>

lemma clean_loop_slash: "clean_loop rooted (slash # rest) out dd = clean_loop rooted rest out dd"
  by (subst clean_loop.simps(2)) simp

lemma clean_loop_element:
  assumes "n \<noteq> []" and "slash \<notin> set n" and "n \<noteq> [dot]" and "n \<noteq> [dot, dot]"
  shows "clean_loop True (n @ slash # rest) out dd =
         clean_loop True (slash # rest) ((if length out \<noteq> 1 then out @ [slash] else out) @ n) dd"
proof -
  from assms(1) obtain c cs where n: "n = c # cs"
    by (cases n) auto
  from assms(2) n have c: "c \<noteq> slash" and cs: "\<forall>x\<in>set cs. x \<noteq> slash"
    by auto
  from cs have tw: "takeWhile (\<lambda>x. x \<noteq> slash) (cs @ slash # rest) = cs"
    by (simp add: takeWhile_tail)
  from cs have dw: "dropWhile (\<lambda>x. x \<noteq> slash) (cs @ slash # rest) = slash # rest"
    by (simp add: dropWhile_append3)
  have d1: "\<not> (c = dot \<and> (cs @ slash # rest = [] \<or> hd (cs @ slash # rest) = slash))"
    using assms(3) n cs by (cases cs) auto
  have d2: "\<not> (c = dot \<and> hd (cs @ slash # rest) = dot \<and>
      (tl (cs @ slash # rest) = [] \<or> hd (tl (cs @ slash # rest)) = slash))"
  proof (cases cs)
    case Nil
    then show ?thesis by (simp add: slash_def dot_def)
  next
    case (Cons d ds)
    with assms(4) n cs show ?thesis by (cases ds) auto
  qed
  show ?thesis
    unfolding n append_Cons
    by (subst clean_loop.simps(2)) (use c d1 d2 tw dw in \<open>auto simp: Let_def\<close>)
qed

lemma join_slash_not_empty: "es \<noteq> [] \<Longrightarrow> \<forall>e\<in>set es. e \<noteq> [] \<Longrightarrow> join_slash es \<noteq> []"
  by (induction es rule: join_slash.induct) auto

lemma clean_loop_elements:
  assumes "es \<noteq> []"
    and "\<forall>e\<in>set es. e \<noteq> [] \<and> slash \<notin> set e \<and> e \<noteq> [dot] \<and> e \<noteq> [dot, dot]"
  shows "clean_loop True (join_slash es @ slash # rest) out dd =
         clean_loop True rest ((if length out \<noteq> 1 then out @ [slash] else out) @ join_slash es) dd"
  using assms
proof (induction es arbitrary: out rule: join_slash.induct)
  case 1
  then show ?case by simp
next
  case (2 e)
  then show ?case
    by (simp add: clean_loop_element clean_loop_slash)
next
  case (3 e e' es)
  let ?out = "(if length out \<noteq> 1 then out @ [slash] else out) @ e"
  from "3.prems" have e: "e \<noteq> []" "slash \<notin> set e" "e \<noteq> [dot]" "e \<noteq> [dot, dot]"
    by simp_all
  from e(1) have len: "length ?out \<noteq> 1"
    by (cases e) auto
  have "clean_loop True (join_slash (e # e' # es) @ slash # rest) out dd =
        clean_loop True (e @ slash # (join_slash (e' # es) @ slash # rest)) out dd"
    by simp
  also have "\<dots> = clean_loop True (slash # (join_slash (e' # es) @ slash # rest)) ?out dd"
    by (rule clean_loop_element [OF e])
  also have "\<dots> = clean_loop True (join_slash (e' # es) @ slash # rest) ?out dd"
    by (rule clean_loop_slash)
  also have "\<dots> = clean_loop True rest
      ((if length ?out \<noteq> 1 then ?out @ [slash] else ?out) @ join_slash (e' # es)) dd"
    using "3.prems" by (intro "3.IH") simp_all
  also have "(if length ?out \<noteq> 1 then ?out @ [slash] else ?out) @ join_slash (e' # es) =
      (if length out \<noteq> 1 then out @ [slash] else out) @ join_slash (e # e' # es)"
    using len by simp
  finally show ?case .
qed

lemma Join_elements_leases:
  assumes "es \<noteq> []"
    and "\<forall>e\<in>set es. e \<noteq> [] \<and> slash \<notin> set e \<and> e \<noteq> [dot] \<and> e \<noteq> [dot, dot]"
  shows "Join [slash # join_slash es, ''leases/''] = slash # join_slash es @ ''/leases''"
proof -
  from assms have ne: "join_slash es \<noteq> []"
    by (intro join_slash_not_empty) auto
  then have "clean_loop True ''leases/'' (slash # join_slash es) 1 =
      slash # join_slash es @ ''/leases''"
    by (simp add: clean_loop.simps slash_def dot_def)
  with clean_loop_elements [OF assms, of "''leases/''" "[slash]" 1] show ?thesis
    by (simp add: Clean_def slash_def)
qed

lemma mkurl_elements_leases:
  assumes "es \<noteq> []"
    and "\<forall>e\<in>set es. e \<noteq> [] \<and> slash \<notin> set e \<and> e \<noteq> [dot] \<and> e \<noteq> [dot, dot]"
  shows "mkurl m (join_slash es) [''leases/''] = base m @ slash # join_slash es @ ''/leases''"
proof -
  from assms have ne: "join_slash es \<noteq> []"
    by (intro join_slash_not_empty) auto
  from assms obtain e es' where es: "es = e # es'" and e: "e \<noteq> []" "slash \<notin> set e"
    by (cases es) auto
  from e(1) have "hd (join_slash es) = hd e"
    unfolding es by (cases es') simp_all
  with e have "hd (join_slash es) \<noteq> slash"
    by (cases e) auto
  with ne Join_elements_leases [OF assms] show ?thesis
    by (simp add: mkurl_def)
qed

subsection \<open>The effects of the HTTP helpers\<close>

lemma BodyClose_notin_httpDo: "BodyClose \<notin> set (snd (httpDo env ctx req))"
  by (simp add: httpDo_def split: select_case.splits)

lemma BodyClose_notin_httpGet: "BodyClose \<notin> set (snd (httpGet env ctx url))"
  by (simp add: httpGet_def BodyClose_notin_httpDo split: sum.splits)

lemma BodyClose_notin_httpPutPost:
  "BodyClose \<notin> set (snd (httpPutPost env ctx method url contentType b))"
  by (simp add: httpPutPost_def BodyClose_notin_httpDo split: sum.splits)

subsection \<open>Invariants of the interleavings of \<open>httpDo\<close>\<close>

lemma run_append:
  "run ctx (es @ es') s = (case run ctx es s of None \<Rightarrow> None | Some s' \<Rightarrow> run ctx es' s')"
  by (induction es arbitrary: s) (auto split: option.splits)

lemma run_snoc:
  "run ctx (es @ [e]) s = (case run ctx es s of None \<Rightarrow> None | Some s' \<Rightarrow> step ctx e s')"
  by (simp add: run_append split: option.splits)

lemma ctx_done_first_decided:
  "CtxDone \<in> set es \<or> (\<exists>r. DoReturns r \<in> set es) \<Longrightarrow>
     ctx_done_first (es @ es') = ctx_done_first es"
  by (induction es rule: ctx_done_first.induct) auto

lemma ctx_done_first_returned:
  "DoReturns r \<in> set es \<Longrightarrow> ctx_done_first (es @ es') = ctx_done_first es"
  by (rule ctx_done_first_decided) blast

lemma ctx_done_first_undecided: "CtxDone \<notin> set es \<Longrightarrow> \<not> ctx_done_first es"
  by (induction es rule: ctx_done_first.induct) auto

lemma state_inv_step:
  "state_inv s \<Longrightarrow> (case step ctx e s of None \<Rightarrow> True | Some s' \<Rightarrow> state_inv s')"
  by (cases e; cases "main s"; cases "goroutine s"; cases "chan s")
     (simp_all add: state_inv_def)

lemma history_inv_step:
  "history_inv es s \<Longrightarrow>
     (case step ctx e s of None \<Rightarrow> True | Some s' \<Rightarrow> history_inv (es @ [e]) s')"
  by (cases e; cases "goroutine s"; cases "chan s")
     (auto simp: history_inv_def)

lemma returned_inv_step:
  assumes "state_inv s" and "history_inv es s" and "returned_inv ctx es s"
  shows "case step ctx e s of None \<Rightarrow> True | Some s' \<Rightarrow> returned_inv ctx (es @ [e]) s'"
proof (cases e)
  case CtxDone
  with assms(3) show ?thesis
    by (auto simp: returned_inv_def ctx_done_first_returned)
next
  case (DoReturns r)
  with assms(1) show ?thesis
    by (auto simp: returned_inv_def state_inv_def)
next
  case Send
  show ?thesis
  proof (cases "goroutine s")
    case (AtSend r)
    show ?thesis
    proof (cases "main s = Blocked")
      case True
      with assms(1) have "\<not> ctx_done s"
        by (simp add: state_inv_def)
      with assms(2) have "CtxDone \<notin> set es"
        by (simp add: history_inv_def)
      then have nf: "\<not> ctx_done_first es"
        by (rule ctx_done_first_undecided)
      from assms(2) AtSend have r: "DoReturns r \<in> set es"
        by (simp add: history_inv_def)
      then have "ctx_done_first (es @ [Send]) = ctx_done_first es"
        by (rule ctx_done_first_returned)
      with nf r True AtSend Send show ?thesis
        by (simp add: returned_inv_def)
    next
      case False
      with assms(1) AtSend Send show ?thesis
        by (auto simp: returned_inv_def state_inv_def)
    qed
  qed (simp_all add: Send)
next
  case SelectCtx
  then show ?thesis
    by (simp add: returned_inv_def)
next
  case SelectChan
  with assms(2) show ?thesis
    by (auto simp: returned_inv_def history_inv_def split: option.splits)
next
  case Park
  then show ?thesis
    by (simp add: returned_inv_def)
next
  case Cancel
  then show ?thesis
    by (simp add: returned_inv_def)
next
  case Drain
  with assms(1,2) show ?thesis
    by (auto simp: returned_inv_def history_inv_def state_inv_def split: option.splits)
qed

lemma run_invariants:
  "run ctx es init = Some s \<Longrightarrow> state_inv s \<and> history_inv es s \<and> returned_inv ctx es s"
proof (induction es arbitrary: s rule: rev_induct)
  case Nil
  then show ?case
    by (auto simp: state_inv_def history_inv_def returned_inv_def init_def)
next
  case (snoc e es)
  from snoc.prems obtain s0 where s0: "run ctx es init = Some s0" and st: "step ctx e s0 = Some s"
    by (auto simp: run_snoc split: option.splits)
  from snoc.IH [OF s0] have i: "state_inv s0" "history_inv es s0" "returned_inv ctx es s0"
    by simp_all
  from state_inv_step [OF i(1), where ctx = ctx and e = e]
    history_inv_step [OF i(2), where ctx = ctx and e = e]
    returned_inv_step [OF i, where e = e] st
  show ?case by simp
qed

lemma completion_returns:
  "state_inv s \<Longrightarrow>
     (case run ctx (completion r s) s of None \<Rightarrow> False | Some s' \<Rightarrow> is_Returned (main s'))"
  by (cases "main s"; cases "goroutine s"; cases "chan s")
     (simp_all add: state_inv_def completion_def)

lemma run_can_return:
  assumes "run ctx es init = Some s"
  shows "\<exists>s'. run ctx (es @ completion r s) init = Some s' \<and> is_Returned (main s')"
proof -
  from run_invariants [OF assms] have "state_inv s"
    by simp
  from completion_returns [OF this, of ctx r] assms show ?thesis
    by (simp add: run_append split: option.splits)
qed

text \<open>
  The value \<open>httpDo\<close> returns to its caller, with the case of the \<open>select\<close>
  given by the environment, is the value returned by an interleaving in which
  the transport call returns the transport's result for the request.
\<close>

lemma httpDo_interleaving:
  "\<exists>es s. run ctx es init = Some s \<and> main s = Returned (fst (httpDo env ctx req)) \<and>
          (\<forall>r. DoReturns r \<in> set es \<longrightarrow> r = Do env req)"
proof (cases "select_fires env req")
  case CaseCtxDone
  have "run ctx [CtxDone, SelectCtx, Cancel, DoReturns (Do env req), Send, Drain] init =
      Some \<lparr>main = Returned (Inl (Err ctx)), goroutine = Finished, chan = None, ctx_done = True,
            cancelled = True\<rparr>"
    by (simp add: init_def)
  with CaseCtxDone show ?thesis
    by (intro exI [of _ "[CtxDone, SelectCtx, Cancel, DoReturns (Do env req), Send, Drain]"] exI)
       (auto simp: httpDo_def)
next
  case CaseResult
  have "run ctx [DoReturns (Do env req), Send, SelectChan] init =
      Some \<lparr>main = Returned (Do env req), goroutine = Finished, chan = None, ctx_done = False,
            cancelled = False\<rparr>"
    by (simp add: init_def)
  with CaseResult show ?thesis
    by (intro exI [of _ "[DoReturns (Do env req), Send, SelectChan]"] exI)
       (auto simp: httpDo_def)
qed

subsection \<open>The cancellable executor\<close>

text \<open>
  Claim C1, as stated, fails: the context becomes done, then the transport
  call returns and the goroutine sends its result, and only then the caller
  executes the \<open>select\<close>. Both cases are ready, the \<open>select\<close> may take the
  channel case, and \<open>httpDo\<close> returns the operation's result although the
  context was done strictly before the transport call completed.
\<close>

theorem httpDo_ctx_done_first_counterexample:
  "ctx_done_first [CtxDone, DoReturns (Inr (resp_ok ''ok'')), Send, SelectChan] \<and>
   map_option main (run test_ctx [CtxDone, DoReturns (Inr (resp_ok ''ok'')), Send, SelectChan] init)
     = Some (Returned (Inr (resp_ok ''ok''))) \<and>
   Inr (resp_ok ''ok'') \<noteq> (Inl (Err test_ctx) :: error + response)"
  by (simp add: init_def)

text \<open>
  Claim C1, amended. Under every interleaving: when \<open>httpDo\<close> has returned,
  the goroutine running the transport call has finished and the channel is
  empty (its result has been received), and the value returned is either
  \<open>ctx.Err()\<close> or a result of the transport call. If the context became done
  strictly before the transport call completed and the \<open>select\<close> did not take
  the channel case, then \<open>httpDo\<close> has cancelled the request, has received the
  goroutine's result from the channel and returns \<open>ctx.Err()\<close>, not that
  result. Moreover every interleaving can be continued to the return of
  \<open>httpDo\<close> by letting the transport call return.
\<close>

theorem httpDo_return_states:
  assumes "run ctx es init = Some s"
  shows "(\<forall>res. main s = Returned res \<longrightarrow>
            goroutine s = Finished \<and> chan s = None \<and>
            (res = Inl (Err ctx) \<or> DoReturns res \<in> set es) \<and>
            (ctx_done_first es \<and> SelectChan \<notin> set es \<longrightarrow>
               res = Inl (Err ctx) \<and> Cancel \<in> set es \<and> Drain \<in> set es)) \<and>
         (\<exists>s'. run ctx (es @ completion r s) init = Some s' \<and> is_Returned (main s'))"
proof -
  from run_invariants [OF assms]
  have i: "state_inv s" "history_inv es s" "returned_inv ctx es s"
    by simp_all
  have "goroutine s = Finished \<and> chan s = None \<and>
        (res = Inl (Err ctx) \<or> DoReturns res \<in> set es) \<and>
        (ctx_done_first es \<and> SelectChan \<notin> set es \<longrightarrow>
           res = Inl (Err ctx) \<and> Cancel \<in> set es \<and> Drain \<in> set es)"
    if ret: "main s = Returned res" for res
  proof -
    from i(1) ret have a: "goroutine s = Finished \<and> chan s = None"
      by (auto simp: state_inv_def)
    from i(3) ret have b:
      "DoReturns res \<in> set es \<and> (SelectChan \<in> set es \<or> \<not> ctx_done_first es) \<or>
       res = Inl (Err ctx) \<and> Cancel \<in> set es \<and> Drain \<in> set es"
      by (simp add: returned_inv_def)
    from a b show ?thesis by blast
  qed
  with run_can_return [OF assms, of r] show ?thesis
    by blast
qed

theorem httpDo_return_states_witness:
  "run test_ctx
     [CtxDone, SelectCtx, Cancel, DoReturns (Inl (TransportError ''request canceled'')), Send, Drain]
     init =
     Some \<lparr>main = Returned (Inl (ContextError ''context canceled'')), goroutine = Finished,
           chan = None, ctx_done = True, cancelled = True\<rparr> \<and>
   ctx_done_first
     [CtxDone, SelectCtx, Cancel, DoReturns (Inl (TransportError ''request canceled'')), Send, Drain] \<and>
   SelectChan \<notin> set
     [CtxDone, SelectCtx, Cancel, DoReturns (Inl (TransportError ''request canceled'')), Send, Drain] \<and>
   Inl (ContextError ''context canceled'') = (Inl (Err test_ctx) :: error + response) \<and>
   (\<exists>s'. run test_ctx
           ([CtxDone, SelectCtx, Cancel, DoReturns (Inl (TransportError ''request canceled'')),
             Send, Drain] @
            completion (Inr (resp_ok ''ok''))
              \<lparr>main = Returned (Inl (ContextError ''context canceled'')), goroutine = Finished,
                chan = None, ctx_done = True, cancelled = True\<rparr>) init = Some s' \<and>
         is_Returned (main s'))"
proof -
  have r: "run test_ctx
     [CtxDone, SelectCtx, Cancel, DoReturns (Inl (TransportError ''request canceled'')), Send, Drain]
     init =
     Some \<lparr>main = Returned (Inl (ContextError ''context canceled'')), goroutine = Finished,
           chan = None, ctx_done = True, cancelled = True\<rparr>"
    by (simp add: init_def test_ctx_def)
  from httpDo_return_states [OF r, of "Inr (resp_ok ''ok'')"] r show ?thesis
    by (simp add: test_ctx_def)
qed

subsection \<open>Resource addressing\<close>

text \<open>
  Claim C2, as stated, fails. \<open>AcquireLease\<close> passes the segment \<open>leases/\<close> to
  \<open>mkurl\<close>, but \<open>path.Join\<close> cleans the joined path and removes the trailing
  separator: for the network \<open>foo\<close> the POST goes to \<open>{base}/foo/leases\<close>, not
  to \<open>{base}/foo/leases/\<close>. When \<open>http.NewRequest\<close> rejects the address (as it
  does for the network \<open>%zz\<close>) no request is issued at all. And the cleaning
  changes a network identifier with a \<open>..\<close> element: for the network \<open>..\<close>
  the address is \<open>{base}/leases\<close>.
\<close>

theorem AcquireLease_trailing_separator_counterexample:
  "AcquireLease (test_env (Inr (resp_ok ''lease'')) CaseResult) test_ctx test_manager ''foo''
     ''attrs'' =
     (Inr ''lease'',
      [ClientDo \<lparr>Method = ''POST'', URL = ''http://10.0.0.1:8888/v1/foo/leases'',
                 Header = [(''Content-Type'', ''application/json'')], ReqBody = Some ''attrs''\<rparr>,
       BodyClose]) \<and>
   ''http://10.0.0.1:8888/v1/foo/leases'' \<noteq> base test_manager @ ''/'' @ ''foo'' @ ''/leases/'' \<and>
   AcquireLease
     ((test_env (Inr (resp_ok ''lease'')) CaseResult)
        \<lparr>NewRequest_err := (\<lambda>verb url. Some (RequestError ''invalid URL escape''))\<rparr>)
     test_ctx test_manager ''%zz'' ''attrs'' =
     (Inl (RequestError ''invalid URL escape''), []) \<and>
   mkurl test_manager ''..'' [''leases/''] = ''http://10.0.0.1:8888/v1/leases''"
proof -
  have a: "mkurl test_manager ''foo'' [''leases/''] = ''http://10.0.0.1:8888/v1/foo/leases''"
    by (simp add: mkurl_def clean_eval test_manager_def NewRemoteManager_def)
  have b: "AcquireLease (test_env (Inr (resp_ok ''lease'')) CaseResult) test_ctx test_manager
     ''foo'' ''attrs'' =
     (Inr ''lease'',
      [ClientDo \<lparr>Method = ''POST'', URL = ''http://10.0.0.1:8888/v1/foo/leases'',
                 Header = [(''Content-Type'', ''application/json'')], ReqBody = Some ''attrs''\<rparr>,
       BodyClose])"
    by (simp add: a AcquireLease_def httpPutPost_def NewRequest_def httpDo_def test_env_def
        resp_ok_def)
  have c: "AcquireLease
     ((test_env (Inr (resp_ok ''lease'')) CaseResult)
        \<lparr>NewRequest_err := (\<lambda>verb url. Some (RequestError ''invalid URL escape''))\<rparr>)
     test_ctx test_manager ''%zz'' ''attrs'' =
     (Inl (RequestError ''invalid URL escape''), [])"
    by (simp add: AcquireLease_def httpPutPost_def NewRequest_def test_env_def)
  have d: "mkurl test_manager ''..'' [''leases/''] = ''http://10.0.0.1:8888/v1/leases''"
    by (simp add: mkurl_def clean_eval test_manager_def NewRemoteManager_def)
  have e: "''http://10.0.0.1:8888/v1/foo/leases'' \<noteq>
      base test_manager @ ''/'' @ ''foo'' @ ''/leases/''"
    by (simp add: test_manager_def NewRemoteManager_def)
  from b e c d show ?thesis
    by (intro conjI)
qed

text \<open>
  Claim C2, amended. For every network identifier: if the attrs serialize and
  \<open>http.NewRequest\<close> accepts the address \<open>mkurl(network, "leases/")\<close>, the one
  request \<open>AcquireLease\<close> hands to the transport is a POST to that address,
  with the content type \<open>application/json\<close>, carrying the serialized attrs as
  its body; if the attrs do not serialize, or \<open>http.NewRequest\<close> rejects the
  address, \<open>AcquireLease\<close> issues no request and returns that error. For
  every non-empty network identifier whose elements (the parts between its
  separators) are all non-empty and different from \<open>.\<close> and \<open>..\<close> (for example
  \<open>foo\<close> and \<open>a/b\<close>), that address is \<open>{base}/{network}/leases\<close>, without a
  trailing separator.
\<close>

theorem AcquireLease_address:
  "(Marshal_attrs env attrs = Inr b \<and>
    NewRequest_err env ''POST'' (mkurl m network [''leases/'']) = None \<longrightarrow>
      (let req = \<lparr>Method = ''POST'', URL = mkurl m network [''leases/''],
                  Header = [(''Content-Type'', ''application/json'')], ReqBody = Some b\<rparr>
       in snd (AcquireLease env ctx m network attrs) \<in>
            {[ClientDo req], [ClientDo req, CancelRequest req], [ClientDo req, BodyClose]})) \<and>
   (Marshal_attrs env attrs = Inr b \<and>
    NewRequest_err env ''POST'' (mkurl m network [''leases/'']) = Some err \<longrightarrow>
      AcquireLease env ctx m network attrs = (Inl err, [])) \<and>
   (Marshal_attrs env attrs = Inl err \<longrightarrow>
      AcquireLease env ctx m network attrs = (Inl err, [])) \<and>
   (es \<noteq> [] \<and> (\<forall>e\<in>set es. e \<noteq> [] \<and> CHR ''/'' \<notin> set e \<and> e \<noteq> ''.'' \<and> e \<noteq> ''..'') \<longrightarrow>
      mkurl m (join_slash es) [''leases/''] = base m @ ''/'' @ join_slash es @ ''/leases'')"
proof (intro conjI impI)
  assume "Marshal_attrs env attrs = Inr b \<and>
    NewRequest_err env ''POST'' (mkurl m network [''leases/'']) = None"
  then show "(let req = \<lparr>Method = ''POST'', URL = mkurl m network [''leases/''],
                  Header = [(''Content-Type'', ''application/json'')], ReqBody = Some b\<rparr>
       in snd (AcquireLease env ctx m network attrs) \<in>
            {[ClientDo req], [ClientDo req, CancelRequest req], [ClientDo req, BodyClose]})"
    by (simp add: AcquireLease_def httpPutPost_def NewRequest_def httpDo_def Let_def
        split: sum.splits select_case.splits prod.splits)
next
  assume "Marshal_attrs env attrs = Inr b \<and>
    NewRequest_err env ''POST'' (mkurl m network [''leases/'']) = Some err"
  then show "AcquireLease env ctx m network attrs = (Inl err, [])"
    by (simp add: AcquireLease_def httpPutPost_def NewRequest_def)
next
  assume "Marshal_attrs env attrs = Inl err"
  then show "AcquireLease env ctx m network attrs = (Inl err, [])"
    by (simp add: AcquireLease_def)
next
  assume "es \<noteq> [] \<and> (\<forall>e\<in>set es. e \<noteq> [] \<and> CHR ''/'' \<notin> set e \<and> e \<noteq> ''.'' \<and> e \<noteq> ''..'')"
  then have "es \<noteq> []"
    and "\<forall>e\<in>set es. e \<noteq> [] \<and> slash \<notin> set e \<and> e \<noteq> [dot] \<and> e \<noteq> [dot, dot]"
    by (simp_all add: slash_def dot_def)
  from mkurl_elements_leases [OF this]
  show "mkurl m (join_slash es) [''leases/''] = base m @ ''/'' @ join_slash es @ ''/leases''"
    by (simp add: slash_def)
qed

theorem AcquireLease_address_witness:
  "Marshal_attrs (test_env (Inr (resp_ok ''lease'')) CaseResult) ''attrs'' = Inr ''attrs'' \<and>
   NewRequest_err (test_env (Inr (resp_ok ''lease'')) CaseResult) ''POST''
     (mkurl test_manager ''a/b'' [''leases/'']) = None \<and>
   snd (AcquireLease (test_env (Inr (resp_ok ''lease'')) CaseResult) test_ctx test_manager ''a/b''
          ''attrs'') =
     [ClientDo \<lparr>Method = ''POST'', URL = ''http://10.0.0.1:8888/v1/a/b/leases'',
                Header = [(''Content-Type'', ''application/json'')], ReqBody = Some ''attrs''\<rparr>,
      BodyClose] \<and>
   [''a'', ''b''] \<noteq> [] \<and>
   list_all (\<lambda>e. e \<noteq> [] \<and> CHR ''/'' \<notin> set e \<and> e \<noteq> ''.'' \<and> e \<noteq> ''..'') [''a'', ''b''] \<and>
   join_slash [''a'', ''b''] = ''a/b'' \<and>
   mkurl test_manager ''a/b'' [''leases/''] = ''http://10.0.0.1:8888/v1/a/b/leases'' \<and>
   mkurl test_manager (join_slash [''foo'']) [''leases/''] = ''http://10.0.0.1:8888/v1/foo/leases'' \<and>
   NewRequest_err
     ((test_env (Inr (resp_ok ''lease'')) CaseResult)
        \<lparr>NewRequest_err := (\<lambda>verb url. Some (RequestError ''invalid URL escape''))\<rparr>)
     ''POST'' (mkurl test_manager ''%zz'' [''leases/'']) =
     Some (RequestError ''invalid URL escape'') \<and>
   AcquireLease
     ((test_env (Inr (resp_ok ''lease'')) CaseResult)
        \<lparr>NewRequest_err := (\<lambda>verb url. Some (RequestError ''invalid URL escape''))\<rparr>)
     test_ctx test_manager ''%zz'' ''attrs'' =
     (Inl (RequestError ''invalid URL escape''), [])"
proof -
  let ?env = "test_env (Inr (resp_ok ''lease'')) CaseResult"
  let ?bad = "?env\<lparr>NewRequest_err := (\<lambda>verb url. Some (RequestError ''invalid URL escape''))\<rparr>"
  have ma: "Marshal_attrs ?env ''attrs'' = Inr ''attrs''"
    and mb: "Marshal_attrs ?bad ''attrs'' = Inr ''attrs''"
    by (simp_all add: test_env_def)
  have nr: "NewRequest_err ?env ''POST'' (mkurl test_manager ''a/b'' [''leases/'']) = None"
    by (simp add: test_env_def)
  have nb: "NewRequest_err ?bad ''POST'' (mkurl test_manager ''%zz'' [''leases/'']) =
      Some (RequestError ''invalid URL escape'')"
    by simp
  have j: "join_slash [''a'', ''b''] = ''a/b''"
    by (simp add: slash_def)
  have tr: "snd (AcquireLease ?env test_ctx test_manager ''a/b'' ''attrs'') =
     [ClientDo \<lparr>Method = ''POST'', URL = mkurl test_manager ''a/b'' [''leases/''],
                Header = [(''Content-Type'', ''application/json'')], ReqBody = Some ''attrs''\<rparr>,
      BodyClose]"
    by (simp add: AcquireLease_def httpPutPost_def NewRequest_def httpDo_def test_env_def
        resp_ok_def)
  have bm: "base test_manager = ''http://10.0.0.1:8888/v1''"
    by (simp add: test_manager_def NewRemoteManager_def)
  from AcquireLease_address [where env = ?env and attrs = "''attrs''" and b = "''attrs''"
      and m = test_manager and network = "''a/b''" and ctx = test_ctx and es = "[''a'', ''b'']"]
    AcquireLease_address [where env = ?bad and attrs = "''attrs''" and b = "''attrs''"
      and m = test_manager and network = "''%zz''" and ctx = test_ctx and es = "[''foo'']"
      and err = "RequestError ''invalid URL escape''"]
    ma mb nr nb j tr bm
  show ?thesis by (simp add: slash_def)
qed

text \<open>
  Claim C3. For every list of trailing segments, \<open>mkurl\<close> gives the empty
  network identifier the address of the sentinel \<open>_\<close>: \<open>mkurl("", parts...)\<close>
  equals \<open>mkurl("_", parts...)\<close>. In particular \<open>GetNetworkConfig\<close> with the
  network \<open>""\<close> behaves as with \<open>_\<close> and targets \<open>{base}/_/config\<close>: that is
  the address it gives to \<open>http.NewRequest\<close>; when the request can be built,
  the first effect of the call is to hand a GET of \<open>{base}/_/config\<close> to the
  transport, and it is the only request of the call; when it cannot, the
  call returns the error of \<open>http.NewRequest\<close> for that address.
\<close>

theorem mkurl_empty_network:
  "mkurl m [] parts = mkurl m ''_'' parts \<and>
   mkurl m [] [''config''] = base m @ ''/_/config'' \<and>
   GetNetworkConfig env ctx m [] = GetNetworkConfig env ctx m ''_'' \<and>
   (NewRequest_err env ''GET'' (base m @ ''/_/config'') = None \<longrightarrow>
      (let req = \<lparr>Method = ''GET'', URL = base m @ ''/_/config'', Header = [], ReqBody = None\<rparr>
       in snd (GetNetworkConfig env ctx m []) \<in>
            {[ClientDo req], [ClientDo req, CancelRequest req], [ClientDo req, BodyClose]})) \<and>
   (\<forall>err. NewRequest_err env ''GET'' (base m @ ''/_/config'') = Some err \<longrightarrow>
      GetNetworkConfig env ctx m [] = (Inl err, []))"
proof -
  have a: "mkurl m [] parts = mkurl m ''_'' parts" for parts
    by (simp add: mkurl_def slash_def)
  have b: "mkurl m [] [''config''] = base m @ ''/_/config''"
    by (simp add: mkurl_def clean_eval)
  have c: "GetNetworkConfig env ctx m [] = GetNetworkConfig env ctx m ''_''"
    by (simp add: GetNetworkConfig_def a)
  have d: "(let req = \<lparr>Method = ''GET'', URL = base m @ ''/_/config'', Header = [], ReqBody = None\<rparr>
    in snd (GetNetworkConfig env ctx m []) \<in>
         {[ClientDo req], [ClientDo req, CancelRequest req], [ClientDo req, BodyClose]})"
    if "NewRequest_err env ''GET'' (base m @ ''/_/config'') = None"
    using that
    by (simp add: GetNetworkConfig_def b httpGet_def NewRequest_def httpDo_def Let_def
        split: sum.splits select_case.splits prod.splits)
  have e: "GetNetworkConfig env ctx m [] = (Inl err, [])"
    if "NewRequest_err env ''GET'' (base m @ ''/_/config'') = Some err" for err
    using that by (simp add: GetNetworkConfig_def b httpGet_def NewRequest_def)
  show ?thesis
  proof (intro conjI impI allI)
    show "mkurl m [] parts = mkurl m ''_'' parts" by (rule a)
    show "mkurl m [] [''config''] = base m @ ''/_/config''" by (rule b)
    show "GetNetworkConfig env ctx m [] = GetNetworkConfig env ctx m ''_''" by (rule c)
  next
    assume "NewRequest_err env ''GET'' (base m @ ''/_/config'') = None"
    then show "(let req = \<lparr>Method = ''GET'', URL = base m @ ''/_/config'', Header = [],
                            ReqBody = None\<rparr>
       in snd (GetNetworkConfig env ctx m []) \<in>
            {[ClientDo req], [ClientDo req, CancelRequest req], [ClientDo req, BodyClose]})"
      by (rule d)
  next
    fix err
    assume "NewRequest_err env ''GET'' (base m @ ''/_/config'') = Some err"
    then show "GetNetworkConfig env ctx m [] = (Inl err, [])"
      by (rule e)
  qed
qed

theorem mkurl_empty_network_witness:
  "NewRequest_err (test_env (Inr (resp_ok ''10.0.0.0/16'')) CaseResult) ''GET''
     (base test_manager @ ''/_/config'') = None \<and>
   GetNetworkConfig (test_env (Inr (resp_ok ''10.0.0.0/16'')) CaseResult) test_ctx test_manager []
     = (Inr ''10.0.0.0/16'',
        [ClientDo \<lparr>Method = ''GET'', URL = ''http://10.0.0.1:8888/v1/_/config'', Header = [],
                   ReqBody = None\<rparr>,
         BodyClose]) \<and>
   GetNetworkConfig (test_env (Inr (resp_ok ''10.0.0.0/16'')) CaseResult) test_ctx test_manager ''_''
     = (Inr ''10.0.0.0/16'',
        [ClientDo \<lparr>Method = ''GET'', URL = ''http://10.0.0.1:8888/v1/_/config'', Header = [],
                   ReqBody = None\<rparr>,
         BodyClose]) \<and>
   GetNetworkConfig
     ((test_env (Inr (resp_ok ''10.0.0.0/16'')) CaseResult)
        \<lparr>NewRequest_err := (\<lambda>verb url. Some (RequestError ''invalid URL''))\<rparr>)
     test_ctx test_manager [] = (Inl (RequestError ''invalid URL''), [])"
proof -
  let ?env = "test_env (Inr (resp_ok ''10.0.0.0/16'')) CaseResult"
  let ?bad = "?env\<lparr>NewRequest_err := (\<lambda>verb url. Some (RequestError ''invalid URL''))\<rparr>"
  have nr: "NewRequest_err ?env ''GET'' (base test_manager @ ''/_/config'') = None"
    by (simp add: test_env_def)
  have nb: "NewRequest_err ?bad ''GET'' (base test_manager @ ''/_/config'') =
      Some (RequestError ''invalid URL'')"
    by simp
  have bm: "base test_manager = ''http://10.0.0.1:8888/v1''"
    by (simp add: test_manager_def NewRemoteManager_def)
  have u: "mkurl test_manager ''_'' [''config''] = ''http://10.0.0.1:8888/v1/_/config''"
    by (simp add: mkurl_def clean_eval test_manager_def NewRemoteManager_def)
  have g: "GetNetworkConfig ?env test_ctx test_manager ''_'' =
      (Inr ''10.0.0.0/16'',
        [ClientDo \<lparr>Method = ''GET'', URL = ''http://10.0.0.1:8888/v1/_/config'', Header = [],
                   ReqBody = None\<rparr>,
         BodyClose])"
    by (simp add: u GetNetworkConfig_def httpGet_def NewRequest_def httpDo_def test_env_def
        resp_ok_def)
  have same: "GetNetworkConfig ?env test_ctx test_manager [] =
      GetNetworkConfig ?env test_ctx test_manager ''_''"
    by (rule mkurl_empty_network [where m = test_manager and env = ?env and ctx = test_ctx
          and parts = "[''config'']", THEN conjunct2, THEN conjunct2, THEN conjunct1])
  have "\<forall>err. NewRequest_err ?bad ''GET'' (base test_manager @ ''/_/config'') = Some err \<longrightarrow>
      GetNetworkConfig ?bad test_ctx test_manager [] = (Inl err, [])"
    by (rule mkurl_empty_network [where m = test_manager and env = ?bad and ctx = test_ctx
          and parts = "[''config'']", THEN conjunct2, THEN conjunct2, THEN conjunct2,
          THEN conjunct2])
  with nb have bad: "GetNetworkConfig ?bad test_ctx test_manager [] =
      (Inl (RequestError ''invalid URL''), [])"
    by blast
  have tr: "let req = \<lparr>Method = ''GET'', URL = base test_manager @ ''/_/config'', Header = [],
                         ReqBody = None\<rparr>
      in snd (GetNetworkConfig ?env test_ctx test_manager []) \<in>
           {[ClientDo req], [ClientDo req, CancelRequest req], [ClientDo req, BodyClose]}"
    by (rule mkurl_empty_network [where m = test_manager and env = ?env and ctx = test_ctx
          and parts = "[''config'']", THEN conjunct2, THEN conjunct2, THEN conjunct2,
          THEN conjunct1, THEN mp, OF nr])
  from tr nr g same bad show ?thesis
    by simp
qed

text \<open>
  Claim C4, as stated, fails for the empty network identifier: it does not
  start with the separator, but \<open>mkurl\<close> maps it to the sentinel \<open>/_\<close>, while
  \<open>"/" + ""\<close> is the root.
\<close>

theorem mkurl_leading_slash_counterexample:
  "\<not> prefix ''/'' '''' \<and>
   mkurl test_manager '''' [''config''] = ''http://10.0.0.1:8888/v1/_/config'' \<and>
   mkurl test_manager (''/'' @ '''') [''config''] = ''http://10.0.0.1:8888/v1/config'' \<and>
   mkurl test_manager '''' [''config''] \<noteq> mkurl test_manager (''/'' @ '''') [''config'']"
  by (simp add: mkurl_def clean_eval test_manager_def NewRemoteManager_def)

text \<open>
  Claim C4, amended. For every non-empty network identifier \<open>n\<close> that does not
  start with the path separator, and every list of trailing segments,
  \<open>mkurl(n, parts...)\<close> equals \<open>mkurl("/" + n, parts...)\<close>.
\<close>

theorem mkurl_leading_slash:
  "network \<noteq> [] \<Longrightarrow> \<not> prefix ''/'' network \<Longrightarrow>
     mkurl m network parts = mkurl m (''/'' @ network) parts"
  by (cases network) (auto simp: mkurl_def slash_def)

theorem mkurl_leading_slash_witness:
  "''foo'' \<noteq> [] \<and> \<not> prefix ''/'' ''foo'' \<and>
   mkurl test_manager ''foo'' [''leases''] = mkurl test_manager (''/'' @ ''foo'') [''leases''] \<and>
   mkurl test_manager ''foo'' [''leases''] = ''http://10.0.0.1:8888/v1/foo/leases''"
  using mkurl_leading_slash
    [where network = "''foo''" and m = test_manager and parts = "[''leases'']"]
  by (simp add: mkurl_def clean_eval test_manager_def NewRemoteManager_def)

subsection \<open>The watch cursor\<close>

text \<open>
  Claim C5. For every cursor that is neither nil nor a string, \<open>WatchLeases\<close>
  returns at once the empty \<open>WatchResult\<close> and an internal error, and has no
  effect: no request is handed to the transport.
\<close>

theorem WatchLeases_bad_cursor:
  "cursor \<noteq> INil \<Longrightarrow> \<not> is_IString cursor \<Longrightarrow>
     WatchLeases env ctx m network cursor =
       ((empty_WatchResult,
         Some (Errorf ''internal error: RemoteManager.WatchLeases received non-string cursor'')),
        [])"
  by (cases cursor) (simp_all add: WatchLeases_def WatchLeases_url_def)

theorem WatchLeases_bad_cursor_witness:
  "INumber 42 \<noteq> INil \<and> \<not> is_IString (INumber 42) \<and>
   WatchLeases (test_env (Inr (resp_ok ''abc'')) CaseResult) test_ctx test_manager ''foo''
     (INumber 42) =
     ((empty_WatchResult,
       Some (Errorf ''internal error: RemoteManager.WatchLeases received non-string cursor'')),
      [])"
  using WatchLeases_bad_cursor
    [where cursor = "INumber 42" and env = "test_env (Inr (resp_ok ''abc'')) CaseResult"
      and ctx = test_ctx and m = test_manager and network = "''foo''"]
  by simp

text \<open>
  Claim C6. When the cursor given is accepted, the response to the request has
  status 200 and its body decodes into a \<open>WatchResult\<close> whose \<open>Cursor\<close> is not
  a string, \<open>WatchLeases\<close> returns the empty \<open>WatchResult\<close> and a protocol
  error, not the decoded result.
\<close>

theorem WatchLeases_bad_result_cursor:
  "WatchLeases_url m network cursor = Inr url \<Longrightarrow>
   fst (httpGet env ctx url) = Inr resp \<Longrightarrow>
   StatusCode resp = 200 \<Longrightarrow>
   Decode_watch env (Body resp) = Inr wr \<Longrightarrow>
   \<not> is_IString (Cursor wr) \<Longrightarrow>
     fst (WatchLeases env ctx m network cursor) =
       (empty_WatchResult, Some (Errorf ''lease watch returned non-string cursor''))"
  by (auto simp: WatchLeases_def split: prod.splits)

theorem WatchLeases_bad_result_cursor_witness:
  "WatchLeases_url test_manager ''foo'' (IString ''abc123'') =
     Inr ''http://10.0.0.1:8888/v1/foo/leases?next=abc123'' \<and>
   fst (httpGet (test_env (Inr (resp_ok '''')) CaseResult) test_ctx
          ''http://10.0.0.1:8888/v1/foo/leases?next=abc123'') = Inr (resp_ok '''') \<and>
   StatusCode (resp_ok '''') = 200 \<and>
   Decode_watch (test_env (Inr (resp_ok '''')) CaseResult) (Body (resp_ok '''')) =
     Inr \<lparr>Events = [], Snapshot = [], Cursor = INumber 42\<rparr> \<and>
   \<not> is_IString (Cursor \<lparr>Events = [], Snapshot = [], Cursor = INumber 42\<rparr>) \<and>
   fst (WatchLeases (test_env (Inr (resp_ok '''')) CaseResult) test_ctx test_manager ''foo''
          (IString ''abc123'')) =
     (empty_WatchResult, Some (Errorf ''lease watch returned non-string cursor''))"
proof -
  have a: "WatchLeases_url test_manager ''foo'' (IString ''abc123'') =
     Inr ''http://10.0.0.1:8888/v1/foo/leases?next=abc123''"
    by (simp add: WatchLeases_url_def mkurl_def clean_eval test_manager_def NewRemoteManager_def)
  have b: "fst (httpGet (test_env (Inr (resp_ok '''')) CaseResult) test_ctx
          ''http://10.0.0.1:8888/v1/foo/leases?next=abc123'') = Inr (resp_ok '''')"
    by (simp add: httpGet_def NewRequest_def httpDo_def test_env_def)
  have c: "StatusCode (resp_ok '''') = 200"
    by (simp add: resp_ok_def)
  have d: "Decode_watch (test_env (Inr (resp_ok '''')) CaseResult) (Body (resp_ok '''')) =
     Inr (\<lparr>Events = [], Snapshot = [], Cursor = INumber 42\<rparr> :: (nat, string) WatchResult)"
    by (simp add: test_env_def resp_ok_def)
  have e: "\<not> is_IString
     (Cursor (\<lparr>Events = [], Snapshot = [], Cursor = INumber 42\<rparr> :: (nat, string) WatchResult))"
    by simp
  from WatchLeases_bad_result_cursor [OF a b c d e] a b c d e show ?thesis
    by simp
qed

subsection \<open>Renewing a lease\<close>

text \<open>
  Claim C7. \<open>RenewLease\<close> is atomic with respect to the caller's lease. Whenever
  it returns an error the caller's lease is what it was; it returns an error
  when the lease cannot be serialized, when the request fails, when the status
  is not 200 and when the body cannot be decoded; and otherwise it returns no
  error and the caller's lease is, as a whole, the lease decoded from the
  response.
\<close>

theorem RenewLease_atomic:
  assumes "RenewLease env ctx m network lease = (err, lease', t)"
  shows "(err \<noteq> None \<longrightarrow> lease' = lease) \<and>
    (case Marshal_lease env lease of
       Inl e \<Rightarrow> err = Some e \<and> lease' = lease
     | Inr b \<Rightarrow>
         (case fst (httpPutPost env ctx ''PUT'' (mkurl m network [''leases'', Key env lease])
                      ''application/json'' b) of
            Inl e \<Rightarrow> err = Some e \<and> lease' = lease
          | Inr resp \<Rightarrow>
              if StatusCode resp \<noteq> 200 then err = Some (httpError resp) \<and> lease' = lease
              else
                (case Decode_lease env (Body resp) of
                   Inl e \<Rightarrow> err = Some e \<and> lease' = lease
                 | Inr newLease \<Rightarrow> err = None \<and> lease' = newLease)))"
  using assms
  by (auto simp: RenewLease_def split: sum.splits prod.splits if_splits)

theorem RenewLease_atomic_witness:
  "RenewLease (test_env (Inr (resp_ok ''renewed'')) CaseResult) test_ctx test_manager ''foo''
     ''10.3.4.0-24'' =
     (None, ''renewed'',
      [ClientDo \<lparr>Method = ''PUT'', URL = ''http://10.0.0.1:8888/v1/foo/leases/10.3.4.0-24'',
                 Header = [(''Content-Type'', ''application/json'')],
                 ReqBody = Some ''10.3.4.0-24''\<rparr>,
       BodyClose]) \<and>
   RenewLease (test_env (Inr (resp_not_found ''gone'')) CaseResult) test_ctx test_manager ''foo''
     ''10.3.4.0-24'' =
     (Some (Errorf ''404 Not Found: gone''), ''10.3.4.0-24'',
      [ClientDo \<lparr>Method = ''PUT'', URL = ''http://10.0.0.1:8888/v1/foo/leases/10.3.4.0-24'',
                 Header = [(''Content-Type'', ''application/json'')],
                 ReqBody = Some ''10.3.4.0-24''\<rparr>,
       BodyClose])"
proof -
  have u: "mkurl test_manager ''foo'' [''leases'', ''10.3.4.0-24''] =
      ''http://10.0.0.1:8888/v1/foo/leases/10.3.4.0-24''"
    by (simp add: mkurl_def clean_eval test_manager_def NewRemoteManager_def)
  have a: "RenewLease (test_env (Inr (resp_ok ''renewed'')) CaseResult) test_ctx test_manager ''foo''
     ''10.3.4.0-24'' =
     (None, ''renewed'',
      [ClientDo \<lparr>Method = ''PUT'', URL = ''http://10.0.0.1:8888/v1/foo/leases/10.3.4.0-24'',
                 Header = [(''Content-Type'', ''application/json'')],
                 ReqBody = Some ''10.3.4.0-24''\<rparr>,
       BodyClose])"
    by (simp add: RenewLease_def test_env_def u httpPutPost_def NewRequest_def httpDo_def resp_ok_def)
  have b: "RenewLease (test_env (Inr (resp_not_found ''gone'')) CaseResult) test_ctx test_manager
     ''foo'' ''10.3.4.0-24'' =
     (Some (Errorf ''404 Not Found: gone''), ''10.3.4.0-24'',
      [ClientDo \<lparr>Method = ''PUT'', URL = ''http://10.0.0.1:8888/v1/foo/leases/10.3.4.0-24'',
                 Header = [(''Content-Type'', ''application/json'')],
                 ReqBody = Some ''10.3.4.0-24''\<rparr>,
       BodyClose])"
    by (simp add: RenewLease_def test_env_def u httpPutPost_def NewRequest_def httpDo_def
        resp_not_found_def httpError_def)
  from RenewLease_atomic [OF a] RenewLease_atomic [OF b] a b show ?thesis
    by simp
qed

subsection \<open>Status codes and the synthesized error\<close>

text \<open>
  Claim C8. For each of the four operations, a response whose status is not
  exactly 200 (201, 204, 400, 404, 500 or any other value) makes the operation
  return an error, the one synthesized from the response, and no decoded
  result: \<open>GetNetworkConfig\<close> and \<open>AcquireLease\<close> return the error alone,
  \<open>RenewLease\<close> leaves the caller's lease as it was, \<open>WatchLeases\<close> returns the
  empty \<open>WatchResult\<close>.
\<close>

theorem only_status_200_succeeds:
  assumes "StatusCode resp \<noteq> 200"
  shows
    "(fst (httpGet env ctx (mkurl m network [''config''])) = Inr resp \<longrightarrow>
        fst (GetNetworkConfig env ctx m network) = Inl (httpError resp)) \<and>
     (Marshal_attrs env attrs = Inr b \<and>
      fst (httpPutPost env ctx ''POST'' (mkurl m network [''leases/'']) ''application/json'' b)
        = Inr resp \<longrightarrow>
        fst (AcquireLease env ctx m network attrs) = Inl (httpError resp)) \<and>
     (Marshal_lease env lease = Inr b' \<and>
      fst (httpPutPost env ctx ''PUT'' (mkurl m network [''leases'', Key env lease])
             ''application/json'' b') = Inr resp \<longrightarrow>
        fst (RenewLease env ctx m network lease) = Some (httpError resp) \<and>
        fst (snd (RenewLease env ctx m network lease)) = lease) \<and>
     (WatchLeases_url m network cursor = Inr url \<and> fst (httpGet env ctx url) = Inr resp \<longrightarrow>
        fst (WatchLeases env ctx m network cursor) = (empty_WatchResult, Some (httpError resp)))"
proof -
  have a: "fst (GetNetworkConfig env ctx m network) = Inl (httpError resp)"
    if "fst (httpGet env ctx (mkurl m network [''config''])) = Inr resp"
    using that assms by (auto simp: GetNetworkConfig_def split: prod.splits)
  have b: "fst (AcquireLease env ctx m network attrs) = Inl (httpError resp)"
    if "Marshal_attrs env attrs = Inr b"
      and "fst (httpPutPost env ctx ''POST'' (mkurl m network [''leases/''])
                  ''application/json'' b) = Inr resp"
    using that assms by (auto simp: AcquireLease_def split: prod.splits)
  have c: "fst (RenewLease env ctx m network lease) = Some (httpError resp) \<and>
           fst (snd (RenewLease env ctx m network lease)) = lease"
    if "Marshal_lease env lease = Inr b'"
      and "fst (httpPutPost env ctx ''PUT'' (mkurl m network [''leases'', Key env lease])
                  ''application/json'' b') = Inr resp"
    using that assms by (auto simp: RenewLease_def split: prod.splits)
  have d: "fst (WatchLeases env ctx m network cursor) = (empty_WatchResult, Some (httpError resp))"
    if "WatchLeases_url m network cursor = Inr url" and "fst (httpGet env ctx url) = Inr resp"
    using that assms by (auto simp: WatchLeases_def split: prod.splits)
  from a b c d show ?thesis by blast
qed

theorem only_status_200_succeeds_witness:
  "StatusCode (resp_not_found ''gone'') \<noteq> 200 \<and>
   fst (httpGet (test_env (Inr (resp_not_found ''gone'')) CaseResult) test_ctx
          (mkurl test_manager ''foo'' [''config''])) = Inr (resp_not_found ''gone'') \<and>
   fst (GetNetworkConfig (test_env (Inr (resp_not_found ''gone'')) CaseResult) test_ctx
          test_manager ''foo'') = Inl (Errorf ''404 Not Found: gone'') \<and>
   fst (AcquireLease (test_env (Inr (resp_not_found ''gone'')) CaseResult) test_ctx
          test_manager ''foo'' ''attrs'') = Inl (Errorf ''404 Not Found: gone'') \<and>
   fst (RenewLease (test_env (Inr (resp_not_found ''gone'')) CaseResult) test_ctx
          test_manager ''foo'' ''10.3.4.0-24'') = Some (Errorf ''404 Not Found: gone'') \<and>
   fst (snd (RenewLease (test_env (Inr (resp_not_found ''gone'')) CaseResult) test_ctx
          test_manager ''foo'' ''10.3.4.0-24'')) = ''10.3.4.0-24'' \<and>
   fst (WatchLeases (test_env (Inr (resp_not_found ''gone'')) CaseResult) test_ctx
          test_manager ''foo'' INil) = (empty_WatchResult, Some (Errorf ''404 Not Found: gone'')) \<and>
   fst (GetNetworkConfig (test_env (Inr (resp_ok ''10.0.0.0/16'')) CaseResult) test_ctx
          test_manager ''foo'') = Inr ''10.0.0.0/16''"
proof -
  let ?env = "test_env (Inr (resp_not_found ''gone'')) CaseResult"
  have s: "StatusCode (resp_not_found ''gone'') \<noteq> 200"
    by (simp add: resp_not_found_def)
  have g: "fst (httpGet ?env test_ctx url) = Inr (resp_not_found ''gone'')" for url
    by (simp add: httpGet_def NewRequest_def httpDo_def test_env_def)
  have p: "fst (httpPutPost ?env test_ctx verb url ct b) = Inr (resp_not_found ''gone'')" for verb url ct b
    by (simp add: httpPutPost_def NewRequest_def httpDo_def test_env_def)
  have ma: "Marshal_attrs ?env ''attrs'' = Inr ''attrs''"
    by (simp add: test_env_def)
  have ml: "Marshal_lease ?env ''10.3.4.0-24'' = Inr ''10.3.4.0-24''"
    by (simp add: test_env_def)
  have w: "WatchLeases_url test_manager ''foo'' INil = Inr (mkurl test_manager ''foo'' [''leases''])"
    by (simp add: WatchLeases_url_def)
  have e: "httpError (resp_not_found ''gone'') = Errorf ''404 Not Found: gone''"
    by (simp add: httpError_def resp_not_found_def)
  have ok: "fst (GetNetworkConfig (test_env (Inr (resp_ok ''10.0.0.0/16'')) CaseResult) test_ctx
          test_manager ''foo'') = Inr ''10.0.0.0/16''"
    by (simp add: GetNetworkConfig_def httpGet_def NewRequest_def httpDo_def test_env_def
        resp_ok_def)
  from only_status_200_succeeds [OF s, where env = ?env and ctx = test_ctx and m = test_manager
      and network = "''foo''" and attrs = "''attrs''" and b = "''attrs''"
      and lease = "''10.3.4.0-24''" and b' = "''10.3.4.0-24''" and cursor = INil
      and url = "mkurl test_manager ''foo'' [''leases'']"]
    s g p ma ml w e ok
  show ?thesis by simp
qed

text \<open>
  Claim C9. The error synthesized for a non-200 response (the one the four
  operations return, see above) has as its message the status line followed
  by the whole text of the response body, which is read to its end; the two
  are joined by the separator \<open>": "\<close> of the format \<open>"%v: %v"\<close>. If reading
  the body fails, the read error itself is the error returned, not a message
  composed from the status.
\<close>

theorem httpError_message:
  "(\<forall>b. ReadAll (Body resp) = Inr b \<longrightarrow> httpError resp = Errorf (Status resp @ '': '' @ b)) \<and>
   (\<forall>err. ReadAll (Body resp) = Inl err \<longrightarrow> httpError resp = err)"
  by (simp add: httpError_def)

theorem httpError_message_witness:
  "ReadAll (Body (resp_not_found ''gone'')) = Inr ''gone'' \<and>
   httpError (resp_not_found ''gone'') = Errorf ''404 Not Found: gone'' \<and>
   ReadAll (Body \<lparr>Status = ''500 Internal Server Error'', StatusCode = 500,
                   Body = Stream ''par'' (Some (ReadError ''unexpected EOF''))\<rparr>) =
     Inl (ReadError ''unexpected EOF'') \<and>
   httpError \<lparr>Status = ''500 Internal Server Error'', StatusCode = 500,
              Body = Stream ''par'' (Some (ReadError ''unexpected EOF''))\<rparr> =
     ReadError ''unexpected EOF''"
proof -
  have a: "ReadAll (Body (resp_not_found ''gone'')) = Inr ''gone''"
    by (simp add: resp_not_found_def)
  have b: "ReadAll (Body \<lparr>Status = ''500 Internal Server Error'', StatusCode = 500,
                   Body = Stream ''par'' (Some (ReadError ''unexpected EOF''))\<rparr>) =
     Inl (ReadError ''unexpected EOF'')"
    by simp
  from httpError_message [of "resp_not_found ''gone''"]
    httpError_message [of "\<lparr>Status = ''500 Internal Server Error'', StatusCode = 500,
              Body = Stream ''par'' (Some (ReadError ''unexpected EOF''))\<rparr>"] a b
  show ?thesis by (simp add: resp_not_found_def)
qed

subsection \<open>Closing the response body\<close>

text \<open>
  Claim C10. \<open>GetNetworkConfig\<close>, \<open>AcquireLease\<close> and \<open>RenewLease\<close> close the
  response body as their last effect on every path on which a response has
  been obtained. \<open>WatchLeases\<close> never closes it, on any path: with a bad
  cursor it has no effect at all, and otherwise its effects are those of
  \<open>httpGet\<close>, whatever the status, the decoding and the cursor decoded.
\<close>

theorem body_close:
  "BodyClose \<notin> set (snd (WatchLeases env ctx m network cursor)) \<and>
   (\<forall>url. WatchLeases_url m network cursor = Inr url \<longrightarrow>
      snd (WatchLeases env ctx m network cursor) = snd (httpGet env ctx url)) \<and>
   (fst (httpGet env ctx (mkurl m network [''config''])) = Inr resp \<longrightarrow>
      snd (GetNetworkConfig env ctx m network) =
        snd (httpGet env ctx (mkurl m network [''config''])) @ [BodyClose]) \<and>
   (Marshal_attrs env attrs = Inr b \<and>
    fst (httpPutPost env ctx ''POST'' (mkurl m network [''leases/'']) ''application/json'' b)
      = Inr resp \<longrightarrow>
      snd (AcquireLease env ctx m network attrs) =
        snd (httpPutPost env ctx ''POST'' (mkurl m network [''leases/'']) ''application/json'' b)
          @ [BodyClose]) \<and>
   (Marshal_lease env lease = Inr b' \<and>
    fst (httpPutPost env ctx ''PUT'' (mkurl m network [''leases'', Key env lease])
           ''application/json'' b') = Inr resp \<longrightarrow>
      snd (snd (RenewLease env ctx m network lease)) =
        snd (httpPutPost env ctx ''PUT'' (mkurl m network [''leases'', Key env lease])
               ''application/json'' b') @ [BodyClose])"
proof -
  have w: "snd (WatchLeases env ctx m network cursor) = snd (httpGet env ctx url)"
    if "WatchLeases_url m network cursor = Inr url" for url
    using that by (auto simp: WatchLeases_def split: prod.splits sum.splits)
  have n: "BodyClose \<notin> set (snd (WatchLeases env ctx m network cursor))"
  proof (cases "WatchLeases_url m network cursor")
    case (Inl err)
    then show ?thesis by (simp add: WatchLeases_def)
  next
    case (Inr url)
    from w [OF this] show ?thesis by (simp add: BodyClose_notin_httpGet)
  qed
  have g: "snd (GetNetworkConfig env ctx m network) =
        snd (httpGet env ctx (mkurl m network [''config''])) @ [BodyClose]"
    if "fst (httpGet env ctx (mkurl m network [''config''])) = Inr resp"
    using that by (auto simp: GetNetworkConfig_def split: prod.splits sum.splits)
  have a: "snd (AcquireLease env ctx m network attrs) =
        snd (httpPutPost env ctx ''POST'' (mkurl m network [''leases/'']) ''application/json'' b)
          @ [BodyClose]"
    if "Marshal_attrs env attrs = Inr b"
      and "fst (httpPutPost env ctx ''POST'' (mkurl m network [''leases/''])
                  ''application/json'' b) = Inr resp"
    using that by (auto simp: AcquireLease_def split: prod.splits sum.splits)
  have r: "snd (snd (RenewLease env ctx m network lease)) =
        snd (httpPutPost env ctx ''PUT'' (mkurl m network [''leases'', Key env lease])
               ''application/json'' b') @ [BodyClose]"
    if "Marshal_lease env lease = Inr b'"
      and "fst (httpPutPost env ctx ''PUT'' (mkurl m network [''leases'', Key env lease])
                  ''application/json'' b') = Inr resp"
    using that by (auto simp: RenewLease_def split: prod.splits sum.splits)
  from w n g a r show ?thesis by blast
qed

theorem body_close_witness:
  "snd (WatchLeases (test_env (Inr (resp_ok ''xyz'')) CaseResult) test_ctx test_manager ''foo'' INil)
     = [ClientDo \<lparr>Method = ''GET'', URL = ''http://10.0.0.1:8888/v1/foo/leases'', Header = [],
                  ReqBody = None\<rparr>] \<and>
   fst (httpGet (test_env (Inr (resp_ok ''xyz'')) CaseResult) test_ctx
          (mkurl test_manager ''foo'' [''config''])) = Inr (resp_ok ''xyz'') \<and>
   snd (GetNetworkConfig (test_env (Inr (resp_ok ''xyz'')) CaseResult) test_ctx test_manager ''foo'')
     = [ClientDo \<lparr>Method = ''GET'', URL = ''http://10.0.0.1:8888/v1/foo/config'', Header = [],
                  ReqBody = None\<rparr>, BodyClose] \<and>
   snd (AcquireLease (test_env (Inr (resp_ok ''xyz'')) CaseResult) test_ctx test_manager ''foo''
          ''attrs'')
     = [ClientDo \<lparr>Method = ''POST'', URL = ''http://10.0.0.1:8888/v1/foo/leases'',
                  Header = [(''Content-Type'', ''application/json'')], ReqBody = Some ''attrs''\<rparr>,
        BodyClose] \<and>
   snd (snd (RenewLease (test_env (Inr (resp_ok ''xyz'')) CaseResult) test_ctx test_manager ''foo''
          ''10.3.4.0-24''))
     = [ClientDo \<lparr>Method = ''PUT'', URL = ''http://10.0.0.1:8888/v1/foo/leases/10.3.4.0-24'',
                  Header = [(''Content-Type'', ''application/json'')],
                  ReqBody = Some ''10.3.4.0-24''\<rparr>,
        BodyClose]"
proof -
  let ?env = "test_env (Inr (resp_ok ''xyz'')) CaseResult"
  have u: "mkurl test_manager ''foo'' [''config''] = ''http://10.0.0.1:8888/v1/foo/config''"
    "mkurl test_manager ''foo'' [''leases''] = ''http://10.0.0.1:8888/v1/foo/leases''"
    "mkurl test_manager ''foo'' [''leases/''] = ''http://10.0.0.1:8888/v1/foo/leases''"
    "mkurl test_manager ''foo'' [''leases'', ''10.3.4.0-24''] =
       ''http://10.0.0.1:8888/v1/foo/leases/10.3.4.0-24''"
    by (simp_all add: mkurl_def clean_eval test_manager_def NewRemoteManager_def)
  have g: "httpGet ?env test_ctx url =
      (Inr (resp_ok ''xyz''), [ClientDo \<lparr>Method = ''GET'', URL = url, Header = [], ReqBody = None\<rparr>])" for url
    by (simp add: httpGet_def NewRequest_def httpDo_def test_env_def)
  have p: "httpPutPost ?env test_ctx verb url ct b =
      (Inr (resp_ok ''xyz''),
       [ClientDo \<lparr>Method = verb, URL = url, Header = [(''Content-Type'', ct)], ReqBody = Some b\<rparr>])" for verb url ct b
    by (simp add: httpPutPost_def NewRequest_def httpDo_def test_env_def)
  have ma: "Marshal_attrs ?env ''attrs'' = Inr ''attrs''"
    and ml: "Marshal_lease ?env ''10.3.4.0-24'' = Inr ''10.3.4.0-24''"
    and k: "Key ?env ''10.3.4.0-24'' = ''10.3.4.0-24''"
    by (simp_all add: test_env_def)
  have w: "WatchLeases_url test_manager ''foo'' INil = Inr ''http://10.0.0.1:8888/v1/foo/leases''"
    by (simp add: WatchLeases_url_def u)
  from body_close [where env = ?env and ctx = test_ctx and m = test_manager
      and network = "''foo''" and cursor = INil and resp = "resp_ok ''xyz''"
      and attrs = "''attrs''" and b = "''attrs''" and lease = "''10.3.4.0-24''"
      and b' = "''10.3.4.0-24''"] u g p ma ml k w
  show ?thesis by simp
qed

end
